theory Spec2Isabelle
  imports Complex_Main
begin

section \<open>Python values and exceptions\<close>

text \<open>
  Both scripts exchange JSON-shaped Python values. \<open>'f\<close> is the type of Python floats
  (IEEE doubles); neither script inspects a float of a request, so the type stays a
  parameter. A dict is an association list in insertion order; a dict produced by
  Python has distinct keys, and \<open>d.get(k)\<close> is \<open>map_of\<close>.
\<close>

datatype 'f py_value =
    PNone
  | PBool bool
  | PInt int
  | PFloat 'f
  | PStr string
  | PList "'f py_value list"
  | PTuple "'f py_value list"
  | PDict "(string \<times> 'f py_value) list"

text \<open>An exception instance: the name of its class and \<open>str(e)\<close>.\<close>

datatype py_exception = Exc string string

fun exception_str :: "py_exception \<Rightarrow> string" where
  "exception_str (Exc cls msg) = msg"

text \<open>
  The clause \<open>except Exception\<close> catches the instances of the classes derived from
  \<open>Exception\<close>. The classes of Python that derive from \<open>BaseException\<close> only, and so
  pass through such a clause, are listed by name.
\<close>

definition outside_Exception :: "string list" where
  "outside_Exception =
     [''BaseException'', ''KeyboardInterrupt'', ''SystemExit'', ''GeneratorExit'',
      ''CancelledError'', ''BaseExceptionGroup'']"

fun is_Exception :: "py_exception \<Rightarrow> bool" where
  "is_Exception (Exc cls msg) = (cls \<notin> set outside_Exception)"

definition quote :: string where
  "quote = [CHR 0x27]"

fun type_name :: "'f py_value \<Rightarrow> string" where
  "type_name PNone = ''NoneType''"
| "type_name (PBool b) = ''bool''"
| "type_name (PInt i) = ''int''"
| "type_name (PFloat x) = ''float''"
| "type_name (PStr s) = ''str''"
| "type_name (PList xs) = ''list''"
| "type_name (PTuple xs) = ''tuple''"
| "type_name (PDict kvs) = ''dict''"

text \<open>\<open>AttributeError: 'list' object has no attribute 'get'\<close>\<close>

definition AttributeError :: "'f py_value \<Rightarrow> string \<Rightarrow> py_exception" where
  "AttributeError v attr =
     Exc ''AttributeError''
       (quote @ type_name v @ quote @ '' object has no attribute '' @ quote @ attr @ quote)"

text \<open>
  Reading a local variable that was never assigned. The wording of the message is that
  of Python 3.11 and later; no handler of the scripts ever reads it.
\<close>

definition UnboundLocalError :: "string \<Rightarrow> py_exception" where
  "UnboundLocalError var =
     Exc ''UnboundLocalError''
       (''cannot access local variable '' @ quote @ var @ quote
          @ '' where it is not associated with a value'')"

text \<open>\<open>obj.get(key, default)\<close>: only a dict has the method.\<close>

fun py_get :: "'f py_value \<Rightarrow> string \<Rightarrow> 'f py_value \<Rightarrow> py_exception + 'f py_value" where
  "py_get (PDict kvs) k dflt = Inr (case map_of kvs k of Some v \<Rightarrow> v | None \<Rightarrow> dflt)"
| "py_get v k dflt = Inl (AttributeError v ''get'')"

text \<open>Decimal rendering of an integer, as \<open>str\<close> gives it.\<close>

fun show_nat :: "nat \<Rightarrow> string" where
  "show_nat n =
     (if n < 10 then [char_of (48 + n)] else show_nat (n div 10) @ [char_of (48 + n mod 10)])"

declare show_nat.simps [simp del]

definition show_int :: "int \<Rightarrow> string" where
  "show_int i = (if i < 0 then ''-'' @ show_nat (nat (- i)) else show_nat (nat i))"

text \<open>
  A replacement field \<open>{v}\<close> of an f-string is \<open>format(v, '')\<close>: a string is inserted
  as it is, \<open>None\<close>, booleans and integers by their \<open>str\<close>. For floats and containers
  \<open>str\<close> is the builtin \<open>repr\<close>, which is taken as the parameter \<open>repr\<close>.
\<close>

fun format_value :: "('f py_value \<Rightarrow> string) \<Rightarrow> 'f py_value \<Rightarrow> string" where
  "format_value repr PNone = ''None''"
| "format_value repr (PBool b) = (if b then ''True'' else ''False'')"
| "format_value repr (PInt i) = show_int i"
| "format_value repr (PStr s) = s"
| "format_value repr v = repr v"

section \<open>The mock server (simple_test_server.py)\<close>

text \<open>\<open>MockParaViewServer\<close>: its only attribute is the set of connected clients.\<close>

record mock_server =
  connected_clients :: "nat set"

text \<open>
  The input of \<open>process_message\<close> is the outcome of \<open>json.loads(message)\<close>: the decoded
  value, or the exception the standard library raised (\<open>JSONDecodeError\<close> for text that
  is not JSON). The output is the object handed to \<open>json.dumps\<close>, or the exception that
  leaves the method.

  \<open>try_block\<close> is the body of the \<open>try\<close> statement, and \<open>array_name_param\<close> its
  expression \<open>data.get("params", {}).get("array_name", "unknown")\<close>.
\<close>

definition array_name_param :: "'f py_value \<Rightarrow> py_exception + 'f py_value" where
  "array_name_param data =
     (case py_get data ''params'' (PDict []) of
        Inl e \<Rightarrow> Inl e
      | Inr params \<Rightarrow> py_get params ''array_name'' (PStr ''unknown''))"

definition try_block ::
  "('f py_value \<Rightarrow> string) \<Rightarrow> py_exception + 'f py_value \<Rightarrow> py_exception + 'f py_value" where
  "try_block repr loaded =
     (case loaded of
        Inl e \<Rightarrow> Inl e
      | Inr data \<Rightarrow>
          (case py_get data ''method'' (PStr '''') of
             Inl e \<Rightarrow> Inl e
           | Inr method \<Rightarrow>
               if method = PStr ''vtk.initialize'' then
                 (case py_get data ''id'' PNone of
                    Inl e \<Rightarrow> Inl e
                  | Inr ident \<Rightarrow>
                      Inr (PDict
                        [(''id'', ident),
                         (''result'', PDict
                            [(''status'', PStr ''success''),
                             (''message'', PStr ''Mock ParaView initialized''),
                             (''data_arrays'',
                                PList [PStr ''Temperature'', PStr ''Pressure'', PStr ''Velocity'']),
                             (''bounds'',
                                PList [PInt (- 100), PInt 100, PInt (- 50), PInt 50,
                                       PInt (- 75), PInt 75]),
                             (''points'', PInt 1234567),
                             (''cells'', PInt 987654)])]))
               else if method = PStr ''vtk.apply_color_map'' then
                 (case py_get data ''id'' PNone of
                    Inl e \<Rightarrow> Inl e
                  | Inr ident \<Rightarrow>
                      (case array_name_param data of
                         Inl e \<Rightarrow> Inl e
                       | Inr array_name \<Rightarrow>
                           Inr (PDict
                             [(''id'', ident),
                              (''result'', PDict
                                 [(''status'', PStr ''success''),
                                  (''message'',
                                     PStr (''Applied color map to ''
                                             @ format_value repr array_name))])])))
               else if method = PStr ''vtk.generate_contours'' then
                 (case py_get data ''id'' PNone of
                    Inl e \<Rightarrow> Inl e
                  | Inr ident \<Rightarrow>
                      Inr (PDict
                        [(''id'', ident),
                         (''result'', PDict
                            [(''status'', PStr ''success''),
                             (''message'', PStr ''Generated 5 contours''),
                             (''contour_values'',
                                PList [PInt 10, PInt 20, PInt 30, PInt 40, PInt 50])])]))
               else
                 (case py_get data ''id'' PNone of
                    Inl e \<Rightarrow> Inl e
                  | Inr ident \<Rightarrow>
                      Inr (PDict
                        [(''id'', ident),
                         (''result'', PDict
                            [(''status'', PStr ''success''),
                             (''message'',
                                PStr (''Mock response for '' @ format_value repr method))])]))))"

text \<open>
  The body of the \<open>except Exception as e\<close> clause. It reads the local variable
  \<open>data\<close>, which is bound only when \<open>json.loads\<close> returned; an exception raised here
  leaves the method. So does an exception of the \<open>try\<close> block that is not derived from
  \<open>Exception\<close>.
\<close>

definition except_block ::
  "py_exception + 'f py_value \<Rightarrow> py_exception \<Rightarrow> py_exception + 'f py_value" where
  "except_block loaded e =
     (case loaded of
        Inl _ \<Rightarrow> Inl (UnboundLocalError ''data'')
      | Inr data \<Rightarrow>
          (case py_get data ''id'' (PInt 0) of
             Inl e' \<Rightarrow> Inl e'
           | Inr ident \<Rightarrow>
               Inr (PDict
                 [(''id'', ident),
                  (''error'', PDict [(''message'', PStr (exception_str e))])])))"

definition process_message ::
  "('f py_value \<Rightarrow> string) \<Rightarrow> mock_server \<Rightarrow> py_exception + 'f py_value
     \<Rightarrow> (py_exception + 'f py_value) \<times> mock_server" where
  "process_message repr self loaded =
     (case try_block repr loaded of
        Inr response \<Rightarrow> (Inr response, self)
      | Inl e \<Rightarrow> if is_Exception e then (except_block loaded e, self) else (Inl e, self))"

text \<open>
  \<open>handle_client\<close>: the connection is added to the set, every message is answered in
  turn, and the \<open>finally\<close> clause discards the connection. \<open>serve\<close> is the
  \<open>async for\<close> loop; it yields the responses sent and the exception that ended the
  loop, if any.
\<close>

fun serve ::
  "('f py_value \<Rightarrow> string) \<Rightarrow> mock_server \<Rightarrow> (py_exception + 'f py_value) list
     \<Rightarrow> 'f py_value list \<times> py_exception option \<times> mock_server" where
  "serve repr self [] = ([], None, self)"
| "serve repr self (m # ms) =
     (case process_message repr self m of
        (Inl e, self') \<Rightarrow> ([], Some e, self')
      | (Inr response, self') \<Rightarrow>
          (case serve repr self' ms of
             (sent, exc, self'') \<Rightarrow> (response # sent, exc, self'')))"

definition handle_client ::
  "('f py_value \<Rightarrow> string) \<Rightarrow> mock_server \<Rightarrow> nat \<Rightarrow> (py_exception + 'f py_value) list
     \<Rightarrow> 'f py_value list \<times> py_exception option \<times> mock_server" where
  "handle_client repr self websocket messages =
     (case serve repr
             (self\<lparr>connected_clients := insert websocket (connected_clients self)\<rparr>) messages of
        (sent, exc, self') \<Rightarrow>
          (sent, exc, self'\<lparr>connected_clients := connected_clients self' - {websocket}\<rparr>))"

text \<open>Reading a key of a response object.\<close>

fun field :: "'f py_value \<Rightarrow> string \<Rightarrow> 'f py_value option" where
  "field (PDict kvs) k = map_of kvs k"
| "field v k = None"

definition result_payload :: "py_exception + 'f py_value \<Rightarrow> 'f py_value option" where
  "result_payload outcome = (case outcome of Inl e \<Rightarrow> None | Inr response \<Rightarrow> field response ''result'')"

fun is_str :: "'f py_value option \<Rightarrow> bool" where
  "is_str (Some (PStr s)) = True"
| "is_str v = False"

section \<open>The visualization server (paraview_server.py)\<close>

subsection \<open>The external engine\<close>

text \<open>
  ParaView's \<open>simple\<close> module, its proxies and \<open>os.path.exists\<close> are outside the
  repository: they are a parameter \<open>E\<close> of the model. \<open>'w\<close> is the state of the engine
  and of the file system. Every call may raise, and every call may change \<open>'w\<close>. A
  proxy is an opaque handle, true in a boolean context. An assignment to a property of
  a proxy (\<open>proxy.Name = value\<close>) is the call \<open>SetProperty\<close>.
\<close>

type_synonym proxy = nat

type_synonym ('w, 'a) external = "'w \<Rightarrow> (py_exception + 'a) \<times> 'w"

datatype 'f property =
    Ints "int list"
  | Decimals "rat list"
  | Floats "'f list"
  | Text string
  | Texts "string list"
  | Number int
  | Decimal rat

record ('w, 'f) engine =
  path_exists :: "string \<Rightarrow> ('w, bool) external"
  CreateView :: "string \<Rightarrow> ('w, proxy) external"
  SetProperty :: "proxy \<Rightarrow> string \<Rightarrow> 'f property \<Rightarrow> ('w, unit) external"
  LegacyVTKReader :: "string list \<Rightarrow> ('w, proxy) external"
  Show :: "proxy \<Rightarrow> proxy option \<Rightarrow> ('w, proxy) external"
  GetDataInformation :: "proxy \<Rightarrow> ('w, proxy) external"
  GetPointDataInformation :: "proxy \<Rightarrow> ('w, proxy) external"
  GetNumberOfArrays :: "proxy \<Rightarrow> ('w, int) external"
  GetArrayInformation :: "proxy \<Rightarrow> int \<Rightarrow> ('w, proxy) external"
  GetName :: "proxy \<Rightarrow> ('w, string) external"
  GetComponentRange :: "proxy \<Rightarrow> int \<Rightarrow> ('w, 'f \<times> 'f) external"
  GetNumberOfComponents :: "proxy \<Rightarrow> ('w, int) external"
  ResetCamera :: "proxy \<Rightarrow> ('w, unit) external"
  Render :: "proxy option \<Rightarrow> ('w, unit) external"
  GetBounds :: "proxy \<Rightarrow> ('w, 'f list) external"
  GetNumberOfPoints :: "proxy \<Rightarrow> ('w, int) external"
  GetNumberOfCells :: "proxy \<Rightarrow> ('w, int) external"
  ColorBy :: "proxy \<Rightarrow> string \<times> string \<Rightarrow> ('w, unit) external"
  GetColorTransferFunction :: "string \<Rightarrow> ('w, proxy) external"
  ApplyPreset :: "proxy \<Rightarrow> string \<Rightarrow> bool \<Rightarrow> ('w, unit) external"
  GetScalarBar :: "proxy \<Rightarrow> proxy option \<Rightarrow> ('w, proxy) external"
  Contour :: "proxy \<Rightarrow> ('w, proxy) external"
  SaveScreenshot :: "string \<Rightarrow> proxy option \<Rightarrow> int \<times> int \<Rightarrow> ('w, unit) external"

text \<open>
  Python's float arithmetic, also a parameter. \<open>float_of_int\<close> is the conversion of an
  integer operand, \<open>None\<close> when the integer is too large (\<open>OverflowError\<close>).
\<close>

record 'f float_ops =
  fadd :: "'f \<Rightarrow> 'f \<Rightarrow> 'f"
  fsub :: "'f \<Rightarrow> 'f \<Rightarrow> 'f"
  fmul :: "'f \<Rightarrow> 'f \<Rightarrow> 'f"
  fdiv :: "'f \<Rightarrow> 'f \<Rightarrow> 'f"
  float_of_int :: "int \<Rightarrow> 'f option"

definition float_truediv_int :: "'f float_ops \<Rightarrow> 'f \<Rightarrow> int \<Rightarrow> py_exception + 'f" where
  "float_truediv_int F x n =
     (case float_of_int F n of
        None \<Rightarrow> Inl (Exc ''OverflowError'' ''int too large to convert to float'')
      | Some d \<Rightarrow>
          if n = 0 then Inl (Exc ''ZeroDivisionError'' ''float division by zero'')
          else Inr (fdiv F x d))"

definition float_mul_int :: "'f float_ops \<Rightarrow> 'f \<Rightarrow> int \<Rightarrow> py_exception + 'f" where
  "float_mul_int F x n =
     (case float_of_int F n of
        None \<Rightarrow> Inl (Exc ''OverflowError'' ''int too large to convert to float'')
      | Some d \<Rightarrow> Inr (fmul F x d))"

subsection \<open>Python floats as IEEE doubles\<close>
















subsection \<open>The protocol object and its statements\<close>

text \<open>An element of \<open>self.data_arrays\<close>: the dict with keys name, range, components.\<close>

record 'f array_entry =
  arr_name :: string
  arr_range :: "'f \<times> 'f"
  arr_components :: int

record 'f protocol =
  view :: "proxy option"
  reader :: "proxy option"
  current_representation :: "proxy option"
  contour_filter :: "proxy option"
  volume_representation :: "proxy option"
  data_arrays :: "'f array_entry list"
  color_map :: "proxy option"

definition init_protocol :: "'f protocol" where
  "init_protocol =
     \<lparr>view = None, reader = None, current_representation = None, contour_filter = None,
      volume_representation = None, data_arrays = [], color_map = None\<rparr>"

text \<open>
  A statement sequence runs on the protocol object and the engine state, and ends with
  a value or with an exception; the state reached is kept in both cases.
\<close>

type_synonym ('w, 'f, 'a) prog =
  "'f protocol \<times> 'w \<Rightarrow> (py_exception + 'a) \<times> ('f protocol \<times> 'w)"

definition py_return :: "'a \<Rightarrow> ('w, 'f, 'a) prog" where
  "py_return x = (\<lambda>s. (Inr x, s))"

definition py_raise :: "py_exception \<Rightarrow> ('w, 'f, 'a) prog" where
  "py_raise e = (\<lambda>s. (Inl e, s))"

definition then_do :: "('w, 'f, 'a) prog \<Rightarrow> ('a \<Rightarrow> ('w, 'f, 'b) prog) \<Rightarrow> ('w, 'f, 'b) prog" where
  "then_do m f = (\<lambda>s. case m s of (Inl e, s') \<Rightarrow> (Inl e, s') | (Inr x, s') \<Rightarrow> f x s')"

text \<open>\<open>try: m except Exception as e: h e\<close>\<close>

definition try_except ::
  "('w, 'f, 'a) prog \<Rightarrow> (py_exception \<Rightarrow> ('w, 'f, 'a) prog) \<Rightarrow> ('w, 'f, 'a) prog" where
  "try_except m h =
     (\<lambda>s. case m s of
            (Inl e, s') \<Rightarrow> if is_Exception e then h e s' else (Inl e, s')
          | (Inr x, s') \<Rightarrow> (Inr x, s'))"

definition call :: "('w, 'a) external \<Rightarrow> ('w, 'f, 'a) prog" where
  "call f = (\<lambda>(self, w). case f w of (r, w') \<Rightarrow> (r, (self, w')))"

definition assign :: "('f protocol \<Rightarrow> 'f protocol) \<Rightarrow> ('w, 'f, unit) prog" where
  "assign g = (\<lambda>(self, w). (Inr (), (g self, w)))"

definition attribute :: "('f protocol \<Rightarrow> 'a) \<Rightarrow> ('w, 'f, 'a) prog" where
  "attribute g = (\<lambda>(self, w). (Inr (g self), (self, w)))"

definition evaluate :: "py_exception + 'a \<Rightarrow> ('w, 'f, 'a) prog" where
  "evaluate r = (\<lambda>s. (r, s))"

definition status_dict :: "string \<Rightarrow> string \<Rightarrow> 'f py_value" where
  "status_dict st msg = PDict [(''status'', PStr st), (''message'', PStr msg)]"

text \<open>\<open>os.path.join\<close> of two components, with the POSIX separator.\<close>

definition os_path_join :: "string \<Rightarrow> string \<Rightarrow> string" where
  "os_path_join a b =
     (if b \<noteq> [] \<and> hd b = CHR ''/'' then b
      else if a = [] \<or> last a = CHR ''/'' then a @ b
      else a @ ''/'' @ b)"

definition py_range :: "int \<Rightarrow> int list" where
  "py_range n = map int [0..<nat n]"

fun map_raise :: "('a \<Rightarrow> py_exception + 'b) \<Rightarrow> 'a list \<Rightarrow> py_exception + 'b list" where
  "map_raise f [] = Inr []"
| "map_raise f (x # xs) =
     (case f x of
        Inl e \<Rightarrow> Inl e
      | Inr y \<Rightarrow> (case map_raise f xs of Inl e \<Rightarrow> Inl e | Inr ys \<Rightarrow> Inr (y # ys)))"

definition entry_value :: "'f array_entry \<Rightarrow> 'f py_value" where
  "entry_value arr =
     PDict [(''name'', PStr (arr_name arr)),
            (''range'', PTuple [PFloat (fst (arr_range arr)), PFloat (snd (arr_range arr))]),
            (''components'', PInt (arr_components arr))]"

subsection \<open>The handlers\<close>

text \<open>
  The handlers take their parameters at the types the dashboard sends them: array, color
  map and file names are strings, the number of contours and the image size integers.
  Calls of \<open>logger\<close> are left out: they do not change what a handler returns.
\<close>

subsection \<open>RPC registration\<close>

text \<open>
  The methods of \<open>VtkVisualizationProtocol\<close> and the names given to them by the
  decorator \<open>@pv_wslink.register\<close>, in the order of the class body.
\<close>

datatype handler =
    Initialize_visualization
  | Apply_color_map
  | Generate_contours
  | Export_image

definition registrations :: "(string \<times> handler) list" where
  "registrations =
     [(''vtk.initialize'', Initialize_visualization),
      (''vtk.apply_color_map'', Apply_color_map),
      (''vtk.generate_contours'', Generate_contours),
      (''vtk.export_image'', Export_image)]"

subsection \<open>vtk.initialize\<close>

text \<open>The body of \<open>for i in range(point_data.GetNumberOfArrays())\<close>, index by index.\<close>

fun collect_arrays :: "('w, 'f) engine \<Rightarrow> proxy \<Rightarrow> int list \<Rightarrow> ('w, 'f, unit) prog" where
  "collect_arrays E point_data [] = py_return ()"
| "collect_arrays E point_data (i # rest) =
     then_do (call (GetArrayInformation E point_data i)) (\<lambda>array_info.
     then_do (call (GetName E array_info)) (\<lambda>array_name.
     then_do (call (GetComponentRange E array_info 0)) (\<lambda>array_range.
     then_do (call (GetNumberOfComponents E array_info)) (\<lambda>n_components.
     then_do (assign (\<lambda>self. self\<lparr>data_arrays := data_arrays self @
                [\<lparr>arr_name = array_name, arr_range = array_range,
                  arr_components = n_components\<rparr>]\<rparr>)) (\<lambda>_.
     collect_arrays E point_data rest)))))"

definition load_file :: "('w, 'f) engine \<Rightarrow> proxy \<Rightarrow> string \<Rightarrow> ('w, 'f, 'f py_value) prog" where
  "load_file E v vtk_file_path =
     then_do (call (LegacyVTKReader E [vtk_file_path])) (\<lambda>rd.
     then_do (assign (\<lambda>self. self\<lparr>reader := Some rd\<rparr>)) (\<lambda>_.
     then_do (call (Show E rd (Some v))) (\<lambda>rep.
     then_do (assign (\<lambda>self. self\<lparr>current_representation := Some rep\<rparr>)) (\<lambda>_.
     then_do (call (SetProperty E rep ''Representation'' (Text ''Surface''))) (\<lambda>_.
     then_do (call (SetProperty E rep ''DiffuseColor'' (Decimals [1, 0, 0]))) (\<lambda>_.
     then_do (call (GetDataInformation E rd)) (\<lambda>data_info.
     then_do (call (GetPointDataInformation E data_info)) (\<lambda>point_data.
     then_do (assign (\<lambda>self. self\<lparr>data_arrays := []\<rparr>)) (\<lambda>_.
     then_do (call (GetNumberOfArrays E point_data)) (\<lambda>n_arrays.
     then_do (collect_arrays E point_data (py_range n_arrays)) (\<lambda>_.
     then_do (call (ResetCamera E v)) (\<lambda>_.
     then_do (call (Render E (Some v))) (\<lambda>_.
     then_do (attribute data_arrays) (\<lambda>arrays.
     then_do (call (GetBounds E data_info)) (\<lambda>bounds.
     then_do (call (GetNumberOfPoints E data_info)) (\<lambda>points.
     then_do (call (GetNumberOfCells E data_info)) (\<lambda>cells.
     py_return (PDict
       [(''status'', PStr ''success''),
        (''message'', PStr ''ParaView initialized successfully''),
        (''data_arrays'', PList (map entry_value arrays)),
        (''bounds'', PList (map PFloat bounds)),
        (''points'', PInt points),
        (''cells'', PInt cells)]))))))))))))))))))"

definition initialize_visualization :: "('w, 'f) engine \<Rightarrow> ('w, 'f, 'f py_value) prog" where
  "initialize_visualization E =
     try_except
       (then_do (call (CreateView E ''RenderView'')) (\<lambda>v.
        then_do (assign (\<lambda>self. self\<lparr>view := Some v\<rparr>)) (\<lambda>_.
        then_do (call (SetProperty E v ''ViewSize'' (Ints [1200, 800]))) (\<lambda>_.
        then_do (call (SetProperty E v ''Background'' (Decimals [1 / 10, 1 / 10, 1 / 10]))) (\<lambda>_.
        then_do (call (path_exists E (os_path_join ''public'' ''Topology.vtk''))) (\<lambda>found.
        then_do (py_return (if \<not> found then ''Topology.vtk''
                            else os_path_join ''public'' ''Topology.vtk'')) (\<lambda>vtk_file_path.
        then_do (call (path_exists E vtk_file_path)) (\<lambda>found'.
        if found' then load_file E v vtk_file_path
        else py_return (status_dict ''error'' (''VTK file not found: '' @ vtk_file_path))))))))))
       (\<lambda>e. py_return (status_dict ''error'' (''Initialization failed: '' @ exception_str e)))"

subsection \<open>vtk.apply_color_map\<close>

definition color_map_presets :: "(string \<times> string) list" where
  "color_map_presets =
     [(''Cool to Warm'', ''Cool to Warm''),
      (''Blue to Red Rainbow'', ''Blue to Red Rainbow''),
      (''Viridis'', ''Viridis''),
      (''Plasma'', ''Plasma''),
      (''Inferno'', ''Inferno''),
      (''Hot'', ''Hot''),
      (''Jet'', ''jet''),
      (''Grayscale'', ''Grayscale'')]"

text \<open>\<open>color_map_presets.get(color_map_name, 'Cool to Warm')\<close>\<close>

definition preset_name :: "string \<Rightarrow> string" where
  "preset_name color_map_name =
     (case map_of color_map_presets color_map_name of
        Some p \<Rightarrow> p
      | None \<Rightarrow> ''Cool to Warm'')"

definition apply_color_map ::
  "('w, 'f) engine \<Rightarrow> string \<Rightarrow> string \<Rightarrow> ('w, 'f, 'f py_value) prog" where
  "apply_color_map E array_name color_map_name =
     try_except
       (then_do (attribute current_representation) (\<lambda>representation.
        case representation of
          None \<Rightarrow> py_return (status_dict ''error'' ''No valid representation or array'')
        | Some rep \<Rightarrow>
            if array_name = [] then
              py_return (status_dict ''error'' ''No valid representation or array'')
            else
              then_do (call (ColorBy E rep (''POINTS'', array_name))) (\<lambda>_.
              then_do (call (GetColorTransferFunction E array_name)) (\<lambda>color_tf.
              then_do (call (ApplyPreset E color_tf (preset_name color_map_name) True)) (\<lambda>_.
              then_do (attribute view) (\<lambda>v.
              then_do (call (GetScalarBar E color_tf v)) (\<lambda>color_bar.
              then_do (call (SetProperty E color_bar ''Visibility'' (Number 1))) (\<lambda>_.
              then_do (call (SetProperty E color_bar ''Title'' (Text array_name))) (\<lambda>_.
              then_do (call (SetProperty E color_bar ''ComponentTitle'' (Text []))) (\<lambda>_.
              then_do (attribute view) (\<lambda>v'.
              then_do (call (Render E v')) (\<lambda>_.
              py_return (status_dict ''success''
                (''Applied '' @ color_map_name @ '' color map to '' @ array_name))))))))))))))
       (\<lambda>e. py_return (status_dict ''error'' (''Color mapping failed: '' @ exception_str e)))"

subsection \<open>vtk.generate_contours\<close>

text \<open>
  \<open>step = (max_val - min_val) / (num_contours + 1)\<close> and
  \<open>[min_val + step * (i + 1) for i in range(num_contours)]\<close>
\<close>

definition contour_step :: "'f float_ops \<Rightarrow> 'f \<Rightarrow> 'f \<Rightarrow> int \<Rightarrow> py_exception + 'f" where
  "contour_step F min_val max_val num_contours =
     float_truediv_int F (fsub F max_val min_val) (num_contours + 1)"

definition contour_value :: "'f float_ops \<Rightarrow> 'f \<Rightarrow> 'f \<Rightarrow> int \<Rightarrow> py_exception + 'f" where
  "contour_value F min_val step i =
     (case float_mul_int F step (i + 1) of
        Inl e \<Rightarrow> Inl e
      | Inr p \<Rightarrow> Inr (fadd F min_val p))"

definition generate_contours ::
  "('w, 'f) engine \<Rightarrow> 'f float_ops \<Rightarrow> string \<Rightarrow> int \<Rightarrow> ('w, 'f, 'f py_value) prog" where
  "generate_contours E F array_name num_contours =
     try_except
       (then_do (attribute reader) (\<lambda>source.
        case source of
          None \<Rightarrow> py_return (status_dict ''error'' ''No valid data or array'')
        | Some rd \<Rightarrow>
            if array_name = [] then
              py_return (status_dict ''error'' ''No valid data or array'')
            else
              then_do (call (Contour E rd)) (\<lambda>cf.
              then_do (assign (\<lambda>self. self\<lparr>contour_filter := Some cf\<rparr>)) (\<lambda>_.
              then_do (call (SetProperty E cf ''ContourBy'' (Texts [''POINTS'', array_name]))) (\<lambda>_.
              then_do (attribute data_arrays) (\<lambda>arrays.
              case find (\<lambda>arr. arr_name arr = array_name) arrays of
                None \<Rightarrow>
                  py_return (status_dict ''error'' (''Array '' @ array_name @ '' not found''))
              | Some array_info \<Rightarrow>
                  then_do (py_return (arr_range array_info)) (\<lambda>(min_val, max_val).
                  then_do (evaluate (contour_step F min_val max_val num_contours)) (\<lambda>step.
                  then_do (evaluate (map_raise (contour_value F min_val step)
                                      (py_range num_contours))) (\<lambda>contour_values.
                  then_do (call (SetProperty E cf ''Isosurfaces'' (Floats contour_values))) (\<lambda>_.
                  then_do (attribute view) (\<lambda>v.
                  then_do (call (Show E cf v)) (\<lambda>contour_rep.
                  then_do (call (SetProperty E contour_rep ''Representation''
                                  (Text ''Surface''))) (\<lambda>_.
                  then_do (call (SetProperty E contour_rep ''DiffuseColor''
                                  (Decimals [0, 0, 1]))) (\<lambda>_.
                  then_do (call (SetProperty E contour_rep ''Opacity'' (Decimal (7 / 10)))) (\<lambda>_.
                  then_do (attribute view) (\<lambda>v'.
                  then_do (call (Render E v')) (\<lambda>_.
                  py_return (PDict
                    [(''status'', PStr ''success''),
                     (''message'', PStr (''Generated '' @ show_int num_contours @ '' contours'')),
                     (''contour_values'', PList (map PFloat contour_values))]))))))))))))))))))
       (\<lambda>e. py_return (status_dict ''error'' (''Contour generation failed: '' @ exception_str e)))"

subsection \<open>vtk.export_image\<close>

definition export_image ::
  "('w, 'f) engine \<Rightarrow> string \<Rightarrow> int \<Rightarrow> int \<Rightarrow> ('w, 'f, 'f py_value) prog" where
  "export_image E filename width height =
     try_except
       (then_do (attribute view) (\<lambda>render_view.
        case render_view of
          None \<Rightarrow> py_return (status_dict ''error'' ''No valid view'')
        | Some v \<Rightarrow>
            then_do (call (SetProperty E v ''ViewSize'' (Ints [width, height]))) (\<lambda>_.
            then_do (call (SaveScreenshot E filename (Some v) (width, height))) (\<lambda>_.
            py_return (PDict
              [(''status'', PStr ''success''),
               (''message'', PStr (''Image exported: '' @ filename)),
               (''filename'', PStr filename)])))))
       (\<lambda>e. py_return (status_dict ''error'' (''Image export failed: '' @ exception_str e)))"

section \<open>Concrete inputs\<close>

text \<open>
  Values on which the definitions are evaluated below. The requests of the examples
  hold strings and integers only, so \<open>repr\<close> is never called on them; \<open>plain_repr\<close>
  stands in for it. \<open>recording_engine\<close> never raises, finds the file
  \<open>public/Topology.vtk\<close> with the two point arrays Temperature and Pressure, and keeps
  the list of the calls made to it as its state; \<open>recording_engine_of\<close> is the same
  engine for any type of floats, given the float of each rational it returns.
  \<open>exact_floats\<close> computes on rationals without rounding.
\<close>

definition plain_repr :: "rat py_value \<Rightarrow> string" where
  "plain_repr v = ''...''"

definition no_clients :: mock_server where
  "no_clients = \<lparr>connected_clients = {}\<rparr>"

definition invalid_json :: "py_exception + rat py_value" where
  "invalid_json = Inl (Exc ''JSONDecodeError'' ''Expecting value: line 1 column 1 (char 0)'')"

definition logged :: "string \<Rightarrow> 'a \<Rightarrow> (string list, 'a) external" where
  "logged entry x = (\<lambda>w. (Inr x, w @ [entry]))"

definition recording_engine_of :: "(rat \<Rightarrow> 'f) \<Rightarrow> (string list, 'f) engine" where
  "recording_engine_of float =
     \<lparr>path_exists = (\<lambda>p. logged (''exists '' @ p) (p = ''public/Topology.vtk'')),
      CreateView = (\<lambda>n. logged (''CreateView '' @ n) 1),
      SetProperty = (\<lambda>p n v. logged (''set '' @ n) ()),
      LegacyVTKReader = (\<lambda>fs. logged (''LegacyVTKReader '' @ concat fs) 2),
      Show = (\<lambda>p v. logged ''Show'' (10 + p)),
      GetDataInformation = (\<lambda>p. logged ''GetDataInformation'' 3),
      GetPointDataInformation = (\<lambda>p. logged ''GetPointDataInformation'' 4),
      GetNumberOfArrays = (\<lambda>p. logged ''GetNumberOfArrays'' 2),
      GetArrayInformation = (\<lambda>p i. logged ''GetArrayInformation'' (20 + nat i)),
      GetName = (\<lambda>p. logged ''GetName'' (if p = 20 then ''Temperature'' else ''Pressure'')),
      GetComponentRange = (\<lambda>p c. logged ''GetComponentRange'' (if p = 20 then (float 0, float 60) else (float 1, float 2))),
      GetNumberOfComponents = (\<lambda>p. logged ''GetNumberOfComponents'' 1),
      ResetCamera = (\<lambda>p. logged ''ResetCamera'' ()),
      Render = (\<lambda>v. logged ''Render'' ()),
      GetBounds = (\<lambda>p. logged ''GetBounds'' (map float [- 100, 100, - 50, 50, - 75, 75])),
      GetNumberOfPoints = (\<lambda>p. logged ''GetNumberOfPoints'' 8),
      GetNumberOfCells = (\<lambda>p. logged ''GetNumberOfCells'' 6),
      ColorBy = (\<lambda>p a. logged (''ColorBy '' @ snd a) ()),
      GetColorTransferFunction = (\<lambda>a. logged (''GetColorTransferFunction '' @ a) 5),
      ApplyPreset = (\<lambda>p preset b. logged (''ApplyPreset '' @ preset) ()),
      GetScalarBar = (\<lambda>p v. logged ''GetScalarBar'' 6),
      Contour = (\<lambda>p. logged ''Contour'' 7),
      SaveScreenshot = (\<lambda>f v r. logged (''SaveScreenshot '' @ f) ())\<rparr>"

definition recording_engine :: "(string list, rat) engine" where
  "recording_engine = recording_engine_of (\<lambda>x. x)"


definition exact_floats :: "rat float_ops" where
  "exact_floats =
     \<lparr>fadd = (\<lambda>x y. x + y), fsub = (\<lambda>x y. x - y), fmul = (\<lambda>x y. x * y),
      fdiv = (\<lambda>x y. x / y), float_of_int = (\<lambda>i. Some (of_int i))\<rparr>"

text \<open>The protocol object after a successful \<open>vtk.initialize\<close> on \<open>recording_engine\<close>.\<close>

definition loaded_protocol :: "rat protocol" where
  "loaded_protocol =
     \<lparr>view = Some 1, reader = Some 2, current_representation = Some 12,
      contour_filter = None, volume_representation = None,
      data_arrays =
        [\<lparr>arr_name = ''Temperature'', arr_range = (0, 60), arr_components = 1\<rparr>,
         \<lparr>arr_name = ''Pressure'', arr_range = (1, 2), arr_components = 1\<rparr>],
      color_map = None\<rparr>"

text \<open>Requests to the mock server, as decoded by \<open>json.loads\<close>, and responses.\<close>


definition initialize_fields :: "(string \<times> rat py_value) list" where
  "initialize_fields = [(''id'', PInt 7), (''method'', PStr ''vtk.initialize'')]"

definition initialize_request :: "py_exception + rat py_value" where
  "initialize_request = Inr (PDict [(''id'', PInt 7), (''method'', PStr ''vtk.initialize'')])"

definition shutdown_request :: "py_exception + rat py_value" where
  "shutdown_request = Inr (PDict [(''id'', PInt 1), (''method'', PStr ''vtk.shutdown'')])"

definition export_request :: "(string \<times> rat py_value) list" where
  "export_request = [(''id'', PInt 4), (''method'', PStr ''vtk.export_image'')]"

definition color_request :: "string \<Rightarrow> py_exception + rat py_value" where
  "color_request array_name =
     Inr (PDict [(''id'', PInt 2), (''method'', PStr ''vtk.apply_color_map''),
                 (''params'', PDict [(''array_name'', PStr array_name)])])"

definition contour_request :: "int \<Rightarrow> int \<Rightarrow> (string \<times> rat py_value) list" where
  "contour_request ident n =
     [(''id'', PInt ident), (''method'', PStr ''vtk.generate_contours''),
      (''params'', PDict [(''array_name'', PStr ''Pressure''), (''num_contours'', PInt n)])]"

definition bad_params_request :: "py_exception + rat py_value" where
  "bad_params_request =
     Inr (PDict [(''method'', PStr ''vtk.apply_color_map''), (''params'', PList [PInt 1])])"

definition bad_params_response :: "rat py_value" where
  "bad_params_response =
     PDict [(''id'', PInt 0),
            (''error'', PDict [(''message'', PStr (exception_str
               (AttributeError (PList [PInt 1 :: rat py_value]) ''get'')))])]"

definition initialize_response :: "rat py_value" where
  "initialize_response =
     PDict
       [(''id'', PInt 7),
        (''result'', PDict
           [(''status'', PStr ''success''),
            (''message'', PStr ''Mock ParaView initialized''),
            (''data_arrays'', PList [PStr ''Temperature'', PStr ''Pressure'', PStr ''Velocity'']),
            (''bounds'',
               PList [PInt (- 100), PInt 100, PInt (- 50), PInt 50, PInt (- 75), PInt 75]),
            (''points'', PInt 1234567),
            (''cells'', PInt 987654)])]"

text \<open>An engine on which saving a screenshot raises.\<close>

definition disk_full_engine :: "(string list, rat) engine" where
  "disk_full_engine =
     recording_engine\<lparr>SaveScreenshot :=
       (\<lambda>f v r w. (Inl (Exc ''RuntimeError'' ''disk full''), w))\<rparr>"

text \<open>
  What a caller of a handler can rely on: the returned dict has a \<open>status\<close> of
  \<open>success\<close> or \<open>error\<close> and a \<open>message\<close> string. \<open>normal_ok\<close> asks it of a
  statement sequence that may still raise.
\<close>

text \<open>An engine on which saving a screenshot is interrupted from the keyboard.\<close>

definition interrupted_engine :: "(string list, rat) engine" where
  "interrupted_engine =
     recording_engine\<lparr>SaveScreenshot :=
       (\<lambda>f v r w. (Inl (Exc ''KeyboardInterrupt'' []), w))\<rparr>"

definition reports_status :: "'f py_value \<Rightarrow> bool" where
  "reports_status d =
     ((field d ''status'' = Some (PStr ''success'') \<or> field d ''status'' = Some (PStr ''error''))
      \<and> is_str (field d ''message''))"

definition normal_ok :: "py_exception + 'f py_value \<Rightarrow> bool" where
  "normal_ok r = (case r of Inl e \<Rightarrow> True | Inr d \<Rightarrow> reports_status d)"

section \<open>Properties of the mock server\<close>

lemma AttributeError_is_Exception: "is_Exception (AttributeError v attr)"
  by (simp add: AttributeError_def outside_Exception_def)

lemma UnboundLocalError_is_Exception: "is_Exception (UnboundLocalError var)"
  by (simp add: UnboundLocalError_def outside_Exception_def)

lemma py_get_raises: "py_get v k dflt = Inl e \<Longrightarrow> e = AttributeError v ''get''"
  by (cases v) simp_all

lemma array_name_param_raises: "array_name_param (PDict kvs) = Inl e \<Longrightarrow> is_Exception e"
  by (auto simp: array_name_param_def AttributeError_is_Exception split: sum.splits
        dest!: py_get_raises)

text \<open>On a request object, the \<open>try\<close> block raises exceptions derived from \<open>Exception\<close> only.\<close>

lemma try_block_raises:
  "try_block repr (Inr (PDict kvs)) = Inl e \<Longrightarrow> is_Exception e"
  by (auto simp: try_block_def split: if_splits sum.splits dest: array_name_param_raises)

lemma returned_is_dict:
  "fst (process_message repr self loaded) = Inr response \<Longrightarrow> \<exists>kvs. loaded = Inr (PDict kvs)"
  apply (cases loaded)
   apply (simp add: process_message_def try_block_def except_block_def split: if_splits)
  subgoal for data
    by (cases data)
       (simp_all add: process_message_def try_block_def except_block_def split: if_splits)
  done

lemma try_block_dict:
  "try_block repr (Inr (PDict kvs)) = Inr response \<Longrightarrow>
     (\<exists>fields. response = PDict fields)
     \<and> field response ''id'' = Some (case map_of kvs ''id'' of Some v \<Rightarrow> v | None \<Rightarrow> PNone)
     \<and> field response ''error'' = None
     \<and> (\<exists>payload. field response ''result'' = Some payload
           \<and> field payload ''status'' = Some (PStr ''success'')
           \<and> is_str (field payload ''message''))"
  by (auto simp: try_block_def split: if_splits sum.splits)

lemma except_block_dict:
  "except_block (Inr (PDict kvs)) e =
     Inr (PDict [(''id'', case map_of kvs ''id'' of Some v \<Rightarrow> v | None \<Rightarrow> PInt 0),
                 (''error'', PDict [(''message'', PStr (exception_str e))])])"
  by (simp add: except_block_def)

lemma process_message_cases:
  "fst (process_message repr self loaded) = Inr response \<Longrightarrow>
     try_block repr loaded = Inr response
     \<or> (\<exists>e. try_block repr loaded = Inl e \<and> except_block loaded e = Inr response)"
  by (auto simp: process_message_def split: sum.splits if_splits)

text \<open>
  A request that decodes to a JSON object is always answered, and an exception of the
  \<open>try\<close> block is reported in \<open>error.message\<close>.
\<close>

lemma object_request_answered:
  "fst (process_message repr self (Inr (PDict kvs))) =
     (case try_block repr (Inr (PDict kvs)) of
        Inr response \<Rightarrow> Inr response
      | Inl e \<Rightarrow>
          Inr (PDict [(''id'', case map_of kvs ''id'' of Some v \<Rightarrow> v | None \<Rightarrow> PInt 0),
                      (''error'', PDict [(''message'', PStr (exception_str e))])]))"
  by (simp add: process_message_def except_block_dict try_block_raises split: sum.splits)

lemma process_message_self:
  "fst (process_message repr self loaded) = fst (process_message repr self' loaded)"
  "snd (process_message repr self loaded) = self"
  by (simp_all add: process_message_def split: sum.splits)

lemma serve_responses:
  "map Inr (fst (serve repr self messages)) =
     map (\<lambda>m. fst (process_message repr self' m))
       (take (length (fst (serve repr self messages))) messages)
   \<and> snd (snd (serve repr self messages)) = self"
proof (induction messages)
  case Nil
  show ?case by simp
next
  case (Cons m ms)
  obtain r where pm: "process_message repr self m = (r, self)"
    using process_message_self(2) [of repr self m] by (cases "process_message repr self m") simp
  show ?case
  proof (cases r)
    case (Inl e)
    with pm show ?thesis by simp
  next
    case (Inr response)
    obtain sent exc s2 where sv: "serve repr self ms = (sent, exc, s2)"
      by (cases "serve repr self ms") auto
    have r': "fst (process_message repr self' m) = Inr response"
      using process_message_self(1) [of repr self' m self] pm Inr by simp
    from Cons sv
    have "map Inr sent = map (\<lambda>m. fst (process_message repr self' m)) (take (length sent) ms)"
      and "s2 = self" by simp_all
    then show ?thesis using pm Inr sv r' by simp
  qed
qed

text \<open>The four branches of the \<open>if\<close> chain, by the value of \<open>method\<close> in a request object.\<close>

lemma initialize_branch:
  assumes "map_of kvs ''method'' = Some (PStr ''vtk.initialize'')"
  shows "try_block repr (Inr (PDict kvs)) =
           Inr (PDict
             [(''id'', case map_of kvs ''id'' of Some v \<Rightarrow> v | None \<Rightarrow> PNone),
              (''result'', PDict
                 [(''status'', PStr ''success''),
                  (''message'', PStr ''Mock ParaView initialized''),
                  (''data_arrays'',
                     PList [PStr ''Temperature'', PStr ''Pressure'', PStr ''Velocity'']),
                  (''bounds'',
                     PList [PInt (- 100), PInt 100, PInt (- 50), PInt 50, PInt (- 75), PInt 75]),
                  (''points'', PInt 1234567),
                  (''cells'', PInt 987654)])])"
  using assms by (simp add: try_block_def)

lemma color_map_branch:
  assumes "map_of kvs ''method'' = Some (PStr ''vtk.apply_color_map'')"
  shows "try_block repr (Inr (PDict kvs)) =
           (case array_name_param (PDict kvs) of
              Inl e \<Rightarrow> Inl e
            | Inr array_name \<Rightarrow>
                Inr (PDict
                  [(''id'', case map_of kvs ''id'' of Some v \<Rightarrow> v | None \<Rightarrow> PNone),
                   (''result'', PDict
                      [(''status'', PStr ''success''),
                       (''message'',
                          PStr (''Applied color map to '' @ format_value repr array_name))])]))"
  using assms by (simp add: try_block_def)

lemma contours_branch:
  assumes "map_of kvs ''method'' = Some (PStr ''vtk.generate_contours'')"
  shows "try_block repr (Inr (PDict kvs)) =
           Inr (PDict
             [(''id'', case map_of kvs ''id'' of Some v \<Rightarrow> v | None \<Rightarrow> PNone),
              (''result'', PDict
                 [(''status'', PStr ''success''),
                  (''message'', PStr ''Generated 5 contours''),
                  (''contour_values'', PList [PInt 10, PInt 20, PInt 30, PInt 40, PInt 50])])])"
  using assms by (simp add: try_block_def)

lemma generic_branch:
  assumes "py_get (PDict kvs) ''method'' (PStr []) = Inr method"
    and "method \<noteq> PStr ''vtk.initialize''" and "method \<noteq> PStr ''vtk.apply_color_map''"
    and "method \<noteq> PStr ''vtk.generate_contours''"
  shows "try_block repr (Inr (PDict kvs)) =
           Inr (PDict
             [(''id'', case map_of kvs ''id'' of Some v \<Rightarrow> v | None \<Rightarrow> PNone),
              (''result'', PDict
                 [(''status'', PStr ''success''),
                  (''message'', PStr (''Mock response for '' @ format_value repr method))])])"
  using assms by (simp add: try_block_def)

text \<open>
  Claim C1, as the code has it. The visualization server registers exactly the four
  names \<open>vtk.initialize\<close>, \<open>vtk.apply_color_map\<close>, \<open>vtk.generate_contours\<close> and
  \<open>vtk.export_image\<close>, each once. The mock server has a branch of its own for the first
  three only: \<open>vtk.initialize\<close> and \<open>vtk.generate_contours\<close> get their canned results,
  \<open>vtk.apply_color_map\<close> gets the message naming \<open>params.array_name\<close> (or the error
  response when reading that name raises). Every other value of \<open>method\<close> in a request
  object, \<open>vtk.export_image\<close> and names outside the four alike, takes the final \<open>else\<close>
  branch and gets the success result \<open>Mock response for <method>\<close>.
\<close>

theorem rpc_surface:
  "set (map fst registrations) =
     {''vtk.initialize'', ''vtk.apply_color_map'', ''vtk.generate_contours'', ''vtk.export_image''}
   \<and> distinct (map fst registrations)
   \<and> (map_of kvs ''method'' = Some (PStr ''vtk.initialize'')
      \<longrightarrow> fst (process_message repr self (Inr (PDict kvs))) =
            Inr (PDict
              [(''id'', case map_of kvs ''id'' of Some v \<Rightarrow> v | None \<Rightarrow> PNone),
               (''result'', PDict
                  [(''status'', PStr ''success''),
                   (''message'', PStr ''Mock ParaView initialized''),
                   (''data_arrays'',
                      PList [PStr ''Temperature'', PStr ''Pressure'', PStr ''Velocity'']),
                   (''bounds'',
                      PList [PInt (- 100), PInt 100, PInt (- 50), PInt 50,
                             PInt (- 75), PInt 75]),
                   (''points'', PInt 1234567),
                   (''cells'', PInt 987654)])]))
   \<and> (map_of kvs ''method'' = Some (PStr ''vtk.apply_color_map'')
      \<longrightarrow> fst (process_message repr self (Inr (PDict kvs))) =
            (case array_name_param (PDict kvs) of
               Inr array_name \<Rightarrow>
                 Inr (PDict
                   [(''id'', case map_of kvs ''id'' of Some v \<Rightarrow> v | None \<Rightarrow> PNone),
                    (''result'', PDict
                       [(''status'', PStr ''success''),
                        (''message'',
                           PStr (''Applied color map to '' @ format_value repr array_name))])])
             | Inl e \<Rightarrow>
                 Inr (PDict
                   [(''id'', case map_of kvs ''id'' of Some v \<Rightarrow> v | None \<Rightarrow> PInt 0),
                    (''error'', PDict [(''message'', PStr (exception_str e))])])))
   \<and> (map_of kvs ''method'' = Some (PStr ''vtk.generate_contours'')
      \<longrightarrow> fst (process_message repr self (Inr (PDict kvs))) =
            Inr (PDict
              [(''id'', case map_of kvs ''id'' of Some v \<Rightarrow> v | None \<Rightarrow> PNone),
               (''result'', PDict
                  [(''status'', PStr ''success''),
                   (''message'', PStr ''Generated 5 contours''),
                   (''contour_values'',
                      PList [PInt 10, PInt 20, PInt 30, PInt 40, PInt 50])])]))
   \<and> (py_get (PDict kvs) ''method'' (PStr []) = Inr method
        \<and> method \<noteq> PStr ''vtk.initialize'' \<and> method \<noteq> PStr ''vtk.apply_color_map''
        \<and> method \<noteq> PStr ''vtk.generate_contours''
      \<longrightarrow> fst (process_message repr self (Inr (PDict kvs))) =
            Inr (PDict
              [(''id'', case map_of kvs ''id'' of Some v \<Rightarrow> v | None \<Rightarrow> PNone),
               (''result'', PDict
                  [(''status'', PStr ''success''),
                   (''message'', PStr (''Mock response for '' @ format_value repr method))])]))"
proof -
  have names: "map fst registrations =
     [''vtk.initialize'', ''vtk.apply_color_map'', ''vtk.generate_contours'', ''vtk.export_image'']"
    by (simp add: registrations_def)
  have registered: "set (map fst registrations) =
     {''vtk.initialize'', ''vtk.apply_color_map'', ''vtk.generate_contours'', ''vtk.export_image''}
     \<and> distinct (map fst registrations)"
    unfolding names by simp
  have first: "fst (process_message repr self (Inr (PDict kvs))) = try_block repr (Inr (PDict kvs))"
    if "map_of kvs ''method'' = Some (PStr ''vtk.initialize'')"
    by (simp add: object_request_answered initialize_branch [OF that])
  have second: "fst (process_message repr self (Inr (PDict kvs))) =
            (case array_name_param (PDict kvs) of
               Inr array_name \<Rightarrow>
                 Inr (PDict
                   [(''id'', case map_of kvs ''id'' of Some v \<Rightarrow> v | None \<Rightarrow> PNone),
                    (''result'', PDict
                       [(''status'', PStr ''success''),
                        (''message'',
                           PStr (''Applied color map to '' @ format_value repr array_name))])])
             | Inl e \<Rightarrow>
                 Inr (PDict
                   [(''id'', case map_of kvs ''id'' of Some v \<Rightarrow> v | None \<Rightarrow> PInt 0),
                    (''error'', PDict [(''message'', PStr (exception_str e))])]))"
    if "map_of kvs ''method'' = Some (PStr ''vtk.apply_color_map'')"
    by (simp add: object_request_answered color_map_branch [OF that] split: sum.splits)
  have third: "fst (process_message repr self (Inr (PDict kvs))) = try_block repr (Inr (PDict kvs))"
    if "map_of kvs ''method'' = Some (PStr ''vtk.generate_contours'')"
    by (simp add: object_request_answered contours_branch [OF that])
  have last: "fst (process_message repr self (Inr (PDict kvs))) = try_block repr (Inr (PDict kvs))"
    if "py_get (PDict kvs) ''method'' (PStr []) = Inr method"
      "method \<noteq> PStr ''vtk.initialize''" "method \<noteq> PStr ''vtk.apply_color_map''"
      "method \<noteq> PStr ''vtk.generate_contours''"
    by (simp add: object_request_answered generic_branch [OF that])
  show ?thesis
    using registered first initialize_branch [of kvs "repr"] second
      third contours_branch [of kvs "repr"] last generic_branch [of kvs "method" "repr"]
    by simp
qed

text \<open>
  The requests \<open>{"id": 7, "method": "vtk.initialize"}\<close>, which gets the canned result of
  its branch, and \<open>{"id": 4, "method": "vtk.export_image"}\<close>, which takes the \<open>else\<close>
  branch.
\<close>

theorem rpc_surface_witness:
  "map_of initialize_fields ''method'' = Some (PStr ''vtk.initialize'')
   \<and> fst (process_message plain_repr no_clients (Inr (PDict initialize_fields))) =
       Inr initialize_response
   \<and> py_get (PDict export_request) ''method'' (PStr []) = Inr (PStr ''vtk.export_image'')
   \<and> fst (process_message plain_repr no_clients (Inr (PDict export_request))) =
       Inr (PDict
         [(''id'', PInt 4),
          (''result'', PDict
             [(''status'', PStr ''success''),
              (''message'', PStr ''Mock response for vtk.export_image'')])])"
proof -
  have a: "map_of initialize_fields ''method'' = Some (PStr ''vtk.initialize'')"
    by (simp add: initialize_fields_def)
  have b: "py_get (PDict export_request) ''method'' (PStr []) = Inr (PStr ''vtk.export_image'')"
    by (simp add: export_request_def)
  from rpc_surface [of initialize_fields plain_repr no_clients] a
  have "fst (process_message plain_repr no_clients (Inr (PDict initialize_fields))) =
       Inr initialize_response"
    by (simp add: initialize_fields_def initialize_response_def)
  moreover from rpc_surface [of export_request plain_repr no_clients "PStr ''vtk.export_image''"] b
  have "fst (process_message plain_repr no_clients (Inr (PDict export_request))) =
       Inr (PDict
         [(''id'', PInt 4),
          (''result'', PDict
             [(''status'', PStr ''success''),
              (''message'', PStr ''Mock response for vtk.export_image'')])])"
    by (simp add: export_request_def)
  ultimately show ?thesis using a b by simp
qed

text \<open>
  Claim C1 as stated fails: \<open>vtk.shutdown\<close> is not one of the four names, and the mock
  answers \<open>{"id": 1, "method": "vtk.shutdown"}\<close> with a success result.
\<close>

theorem unknown_method_counterexample:
  "''vtk.shutdown'' \<notin> set (map fst registrations)
   \<and> fst (process_message plain_repr no_clients shutdown_request) =
       Inr (PDict
         [(''id'', PInt 1),
          (''result'', PDict
             [(''status'', PStr ''success''),
              (''message'', PStr ''Mock response for vtk.shutdown'')])])"
  by (simp add: registrations_def shutdown_request_def process_message_def try_block_def)

text \<open>
  Claim C2 at a message that is not valid JSON: \<open>json.loads\<close> raises, the \<open>except\<close>
  clause evaluates \<open>data.get('id', 0)\<close> with \<open>data\<close> unbound, and the
  \<open>UnboundLocalError\<close> leaves \<open>process_message\<close>; no response is returned. The same
  happens for the message \<open>[]\<close>, where \<open>data\<close> is a list and the \<open>AttributeError\<close> of
  \<open>data.get\<close> is raised a second time inside the \<open>except\<close> clause.
\<close>

theorem invalid_json_propagates:
  "fst (process_message plain_repr no_clients invalid_json) = Inl (UnboundLocalError ''data'')
   \<and> fst (process_message plain_repr no_clients (Inr (PList []))) =
       Inl (AttributeError (PList [] :: rat py_value) ''get'')"
  by (simp add: invalid_json_def process_message_def try_block_def except_block_def
        outside_Exception_def AttributeError_is_Exception)

text \<open>
  Claim C3: every response the mock returns carries the \<open>id\<close> of the request; when
  the request has no \<open>id\<close>, a success response carries \<open>null\<close> and an error response
  carries \<open>0\<close>. A response is returned only for a request that decodes to an object.
\<close>

theorem mock_echoes_request_id:
  assumes "fst (process_message repr self loaded) = Inr response"
  shows "\<exists>kvs. loaded = Inr (PDict kvs)
           \<and> field response ''id'' =
               Some (case map_of kvs ''id'' of
                       Some v \<Rightarrow> v
                     | None \<Rightarrow> if field response ''error'' = None then PNone else PInt 0)"
proof -
  from assms obtain kvs where l: "loaded = Inr (PDict kvs)"
    using returned_is_dict by blast
  from process_message_cases [OF assms]
  show ?thesis
  proof
    assume "try_block repr loaded = Inr response"
    with l show ?thesis using try_block_dict [of repr kvs response] by auto
  next
    assume "\<exists>e. try_block repr loaded = Inl e \<and> except_block loaded e = Inr response"
    with l show ?thesis by (auto simp: except_block_dict)
  qed
qed

theorem mock_echoes_request_id_witness:
  "fst (process_message plain_repr no_clients initialize_request) = Inr initialize_response
   \<and> field initialize_response ''id'' = Some (PInt 7)"
proof -
  have h: "fst (process_message plain_repr no_clients initialize_request) =
             Inr initialize_response"
    by (simp add: initialize_request_def initialize_response_def process_message_def
          try_block_def)
  from mock_echoes_request_id [OF h] have "field initialize_response ''id'' = Some (PInt 7)"
    by (auto simp: initialize_request_def)
  with h show ?thesis by simp
qed

text \<open>
  Claim C5, as the code has it. Two request objects with the same \<open>method\<close> get the
  same result payload whatever their \<open>params\<close> and \<open>id\<close>, except for
  \<open>vtk.apply_color_map\<close>, whose message holds \<open>params.array_name\<close>: there the payloads
  agree when both requests give the same array name.
\<close>

theorem result_payload_by_method:
  assumes "map_of kvs1 ''method'' = map_of kvs2 ''method''"
    and "map_of kvs1 ''method'' = Some (PStr ''vtk.apply_color_map'') \<Longrightarrow>
           array_name_param (PDict kvs1) = Inr array_name
           \<and> array_name_param (PDict kvs2) = Inr array_name"
  shows "result_payload (fst (process_message repr self1 (Inr (PDict kvs1)))) =
           result_payload (fst (process_message repr self2 (Inr (PDict kvs2))))
         \<and> result_payload (fst (process_message repr self1 (Inr (PDict kvs1)))) \<noteq> None"
proof (cases "map_of kvs1 ''method'' = Some (PStr ''vtk.apply_color_map'')")
  case True
  with assms show ?thesis
    by (simp add: process_message_def try_block_def result_payload_def)
next
  case False
  with assms(1) show ?thesis
    by (simp add: process_message_def try_block_def result_payload_def split: option.splits)
qed

theorem result_payload_by_method_witness:
  "result_payload (fst (process_message plain_repr no_clients (Inr (PDict (contour_request 1 3))))) =
     result_payload (fst (process_message plain_repr no_clients (Inr (PDict (contour_request 2 9)))))
   \<and> result_payload (fst (process_message plain_repr no_clients (Inr (PDict (contour_request 1 3)))))
       \<noteq> None"
proof -
  have same: "map_of (contour_request 1 3) ''method'' = map_of (contour_request 2 9) ''method''"
    by (simp add: contour_request_def)
  have other: "map_of (contour_request 1 3) ''method'' \<noteq> Some (PStr ''vtk.apply_color_map'')"
    by (simp add: contour_request_def)
  from result_payload_by_method
         [OF same, of "PStr ''Pressure''" plain_repr no_clients no_clients] other
  show ?thesis by blast
qed

text \<open>
  Claim C5 as stated fails: two \<open>vtk.apply_color_map\<close> requests that differ in
  \<open>params.array_name\<close> only get different result payloads.
\<close>

theorem params_change_payload_counterexample:
  "result_payload (fst (process_message plain_repr no_clients (color_request ''Temperature''))) \<noteq>
   result_payload (fst (process_message plain_repr no_clients (color_request ''Pressure'')))"
  by (simp add: color_request_def process_message_def try_block_def array_name_param_def
        result_payload_def)

text \<open>
  Claim C6: the outcome of \<open>process_message\<close> does not depend on the server object
  (the connected clients), the server object is left as it was, and so every response
  sent on a connection is the one \<open>process_message\<close> gives for that message alone,
  whatever was processed before.
\<close>

theorem process_message_stateless:
  "fst (process_message repr self loaded) = fst (process_message repr self' loaded)
   \<and> snd (process_message repr self loaded) = self
   \<and> map Inr (fst (handle_client repr self websocket messages)) =
       map (\<lambda>m. fst (process_message repr self' m))
         (take (length (fst (handle_client repr self websocket messages))) messages)"
proof -
  let ?self1 = "self\<lparr>connected_clients := insert websocket (connected_clients self)\<rparr>"
  obtain sent exc s2 where sv: "serve repr ?self1 messages = (sent, exc, s2)"
    by (cases "serve repr ?self1 messages") auto
  have "fst (handle_client repr self websocket messages) = sent"
    using sv by (simp add: handle_client_def)
  moreover have "map Inr sent = map (\<lambda>m. fst (process_message repr self' m))
         (take (length sent) messages)"
    using serve_responses [of repr ?self1 messages self'] sv by simp
  ultimately show ?thesis
    using process_message_self(1) [of repr self loaded self']
      process_message_self(2) [of repr self loaded]
    by simp
qed

text \<open>
  Claim C7: every response the mock returns is an object with an \<open>id\<close> key and exactly
  one of \<open>result\<close>, an object with string fields \<open>status\<close> and \<open>message\<close>, and
  \<open>error\<close>, an object with a string field \<open>message\<close>.
\<close>

theorem mock_response_schema:
  assumes "fst (process_message repr self loaded) = Inr response"
  shows "(\<exists>fields. response = PDict fields) \<and> field response ''id'' \<noteq> None
         \<and> ((\<exists>payload. field response ''result'' = Some payload
                \<and> is_str (field payload ''status'') \<and> is_str (field payload ''message''))
              \<and> field response ''error'' = None
            \<or> (\<exists>err. field response ''error'' = Some err \<and> is_str (field err ''message''))
              \<and> field response ''result'' = None)"
proof -
  from assms obtain kvs where l: "loaded = Inr (PDict kvs)"
    using returned_is_dict by blast
  from process_message_cases [OF assms]
  show ?thesis
  proof
    assume "try_block repr loaded = Inr response"
    with l have "try_block repr (Inr (PDict kvs)) = Inr response" by simp
    from try_block_dict [OF this] show ?thesis by auto
  next
    assume "\<exists>e. try_block repr loaded = Inl e \<and> except_block loaded e = Inr response"
    with l show ?thesis by (auto simp: except_block_dict)
  qed
qed

text \<open>
  The request \<open>{"method": "vtk.apply_color_map", "params": [1]}\<close>: \<open>params\<close> is a list,
  the \<open>AttributeError\<close> is caught and reported.
\<close>

theorem mock_response_schema_witness:
  "fst (process_message plain_repr no_clients bad_params_request) = Inr bad_params_response
   \<and> field bad_params_response ''id'' = Some (PInt 0)
   \<and> field bad_params_response ''result'' = None
   \<and> field bad_params_response ''error'' =
       Some (PDict [(''message'',
         PStr (quote @ ''list'' @ quote @ '' object has no attribute '' @ quote @ ''get'' @ quote))])"
proof -
  have h: "fst (process_message plain_repr no_clients bad_params_request) =
             Inr bad_params_response"
    by (simp add: bad_params_request_def bad_params_response_def process_message_def
          try_block_def except_block_def array_name_param_def AttributeError_is_Exception)
  from mock_response_schema [OF h] h show ?thesis
    by (simp add: bad_params_response_def AttributeError_def)
qed

section \<open>Properties of the visualization server\<close>

lemma ok_return: "reports_status d \<Longrightarrow> normal_ok (fst (py_return d s))"
  by (simp add: normal_ok_def py_return_def)

lemma ok_then:
  assumes "\<And>x s'. normal_ok (fst (f x s'))"
  shows "normal_ok (fst (then_do m f s))"
proof -
  obtain r s' where ms: "m s = (r, s')" by (cases "m s")
  show ?thesis
  proof (cases r)
    case (Inl e)
    with ms show ?thesis by (simp add: then_do_def normal_ok_def)
  next
    case (Inr x)
    with ms assms [of x s'] show ?thesis by (simp add: then_do_def)
  qed
qed

text \<open>
  A \<open>try\<close> block whose returns all report a status, under an \<open>except Exception\<close>
  clause that returns a dict reporting a status: the statement returns such a dict, or
  ends with an exception that is not derived from \<open>Exception\<close>.
\<close>

lemma handler_answers:
  assumes "\<And>s. normal_ok (fst (m s))" and "\<And>e. reports_status (h e)"
  shows "case fst (try_except m (\<lambda>e. py_return (h e)) s) of
           Inr d \<Rightarrow> reports_status d
         | Inl e \<Rightarrow> \<not> is_Exception e"
proof -
  obtain r s' where ms: "m s = (r, s')" by (cases "m s")
  with assms(1) [of s] assms(2) show ?thesis
    by (cases r) (simp_all add: try_except_def py_return_def normal_ok_def)
qed

lemma load_file_ok: "normal_ok (fst (load_file E v vtk_file_path s))"
  unfolding load_file_def
  by (auto intro!: ok_then ok_return simp: reports_status_def)

lemma initialize_visualization_answers:
  "case fst (initialize_visualization E s) of
     Inr d \<Rightarrow> reports_status d | Inl e \<Rightarrow> \<not> is_Exception e"
  unfolding initialize_visualization_def
  by (rule handler_answers)
     (auto intro!: ok_then ok_return load_file_ok simp: reports_status_def status_dict_def)

lemma apply_color_map_answers:
  "case fst (apply_color_map E array_name color_map_name s) of
     Inr d \<Rightarrow> reports_status d | Inl e \<Rightarrow> \<not> is_Exception e"
  unfolding apply_color_map_def
  by (rule handler_answers)
     (auto intro!: ok_then ok_return split: option.split
        simp: reports_status_def status_dict_def)

lemma generate_contours_answers:
  "case fst (generate_contours E F array_name num_contours s) of
     Inr d \<Rightarrow> reports_status d | Inl e \<Rightarrow> \<not> is_Exception e"
  unfolding generate_contours_def
  by (rule handler_answers)
     (auto intro!: ok_then ok_return split: option.split prod.split
        simp: reports_status_def status_dict_def)

lemma export_image_answers:
  "case fst (export_image E filename width height s) of
     Inr d \<Rightarrow> reports_status d | Inl e \<Rightarrow> \<not> is_Exception e"
  unfolding export_image_def
  by (rule handler_answers)
     (auto intro!: ok_then ok_return split: option.split
        simp: reports_status_def status_dict_def)

text \<open>
  Claim C4, as the code has it. Whatever the engine does and in whatever state the
  protocol object is, each of the four handlers either returns a dict with \<open>status\<close>
  equal to \<open>success\<close> or \<open>error\<close> and with a \<open>message\<close> (a string), or ends with an
  exception that is not derived from \<open>Exception\<close>: every exception derived from
  \<open>Exception\<close> is caught and reported, and \<open>KeyboardInterrupt\<close>, \<open>SystemExit\<close> and the
  like pass through the clause \<open>except Exception\<close>.
\<close>

theorem handlers_catch_every_Exception:
  "(case fst (initialize_visualization E s) of
      Inr d \<Rightarrow>
        (field d ''status'' = Some (PStr ''success'') \<or> field d ''status'' = Some (PStr ''error''))
        \<and> is_str (field d ''message'')
    | Inl e \<Rightarrow> \<not> is_Exception e)
   \<and> (case fst (apply_color_map E array_name color_map_name s) of
      Inr d \<Rightarrow>
        (field d ''status'' = Some (PStr ''success'') \<or> field d ''status'' = Some (PStr ''error''))
        \<and> is_str (field d ''message'')
    | Inl e \<Rightarrow> \<not> is_Exception e)
   \<and> (case fst (generate_contours E F array_name num_contours s) of
      Inr d \<Rightarrow>
        (field d ''status'' = Some (PStr ''success'') \<or> field d ''status'' = Some (PStr ''error''))
        \<and> is_str (field d ''message'')
    | Inl e \<Rightarrow> \<not> is_Exception e)
   \<and> (case fst (export_image E filename width height s) of
      Inr d \<Rightarrow>
        (field d ''status'' = Some (PStr ''success'') \<or> field d ''status'' = Some (PStr ''error''))
        \<and> is_str (field d ''message'')
    | Inl e \<Rightarrow> \<not> is_Exception e)"
  using initialize_visualization_answers [of E s]
    apply_color_map_answers [of E array_name color_map_name s]
    generate_contours_answers [of E F array_name num_contours s]
    export_image_answers [of E filename width height s]
  unfolding reports_status_def by simp

text \<open>
  An engine that fails to save with a \<open>RuntimeError\<close>: \<open>vtk.export_image\<close> answers with
  status \<open>error\<close> and the text of the exception.
\<close>

theorem handlers_catch_every_Exception_witness:
  "is_Exception (Exc ''RuntimeError'' ''disk full'')
   \<and> fst (export_image disk_full_engine ''out.png'' 1920 1080 (loaded_protocol, [])) =
     Inr (status_dict ''error'' ''Image export failed: disk full'')
   \<and> field (status_dict ''error'' ''Image export failed: disk full'' :: rat py_value) ''status'' =
       Some (PStr ''error'')"
  using handlers_catch_every_Exception
    [of disk_full_engine "(loaded_protocol, [])" "''Temperature''" "''Jet''" exact_floats 5
        "''out.png''" 1920 1080]
  by (simp add: export_image_def then_do_def try_except_def call_def attribute_def
        py_return_def disk_full_engine_def recording_engine_def recording_engine_of_def
        logged_def loaded_protocol_def status_dict_def outside_Exception_def)

text \<open>
  Claim C4 as stated fails: when the engine raises \<open>KeyboardInterrupt\<close> while saving,
  the exception leaves \<open>export_image\<close> and no dict is returned.
\<close>

theorem keyboard_interrupt_counterexample:
  "fst (export_image interrupted_engine ''out.png'' 1920 1080 (loaded_protocol, [])) =
     Inl (Exc ''KeyboardInterrupt'' [])"
  by (simp add: export_image_def then_do_def try_except_def call_def attribute_def
        py_return_def interrupted_engine_def recording_engine_def recording_engine_of_def
        logged_def loaded_protocol_def outside_Exception_def)

lemma preset_keys:
  "map fst color_map_presets =
     [''Cool to Warm'', ''Blue to Red Rainbow'', ''Viridis'', ''Plasma'', ''Inferno'', ''Hot'',
      ''Jet'', ''Grayscale'']"
  by (simp add: color_map_presets_def)

lemma preset_name_unknown:
  "color_map_name \<notin> set (map fst color_map_presets) \<Longrightarrow>
     preset_name color_map_name = ''Cool to Warm''"
  by (simp add: preset_name_def map_of_eq_None_iff [THEN iffD2] split: option.split)

lemma preset_name_default: "preset_name ''Cool to Warm'' = ''Cool to Warm''"
  by (simp add: preset_name_def color_map_presets_def)

text \<open>
  The color map name reaches the engine through \<open>preset_name\<close> only, and the caller
  through the success message only.
\<close>

lemma apply_color_map_by_preset:
  assumes "preset_name n1 = preset_name n2"
  shows "snd (apply_color_map E array_name n1 s) = snd (apply_color_map E array_name n2 s)
     \<and> fst (apply_color_map E array_name n1 s) =
         (if fst (apply_color_map E array_name n2 s) =
               Inr (status_dict ''success'' (''Applied '' @ n2 @ '' color map to '' @ array_name))
          then Inr (status_dict ''success'' (''Applied '' @ n1 @ '' color map to '' @ array_name))
          else fst (apply_color_map E array_name n2 s))"
  using assms
  by (cases s)
     (simp add: apply_color_map_def then_do_def try_except_def call_def attribute_def
        py_return_def status_dict_def split: option.split prod.split sum.split)

lemma run_default_color_map:
  "apply_color_map recording_engine ''Temperature'' ''Cool to Warm'' (loaded_protocol, []) =
     (Inr (status_dict ''success'' ''Applied Cool to Warm color map to Temperature''),
      loaded_protocol,
      [''ColorBy Temperature'', ''GetColorTransferFunction Temperature'',
       ''ApplyPreset Cool to Warm'', ''GetScalarBar'', ''set Visibility'', ''set Title'',
       ''set ComponentTitle'', ''Render''])"
  by (simp add: apply_color_map_def then_do_def try_except_def call_def attribute_def
        py_return_def recording_engine_def recording_engine_of_def logged_def
        loaded_protocol_def preset_name_def color_map_presets_def)

text \<open>
  Claim C9: for a color map name that is not a key of \<open>color_map_presets\<close>, the preset
  looked up is \<open>Cool to Warm\<close> and no exception comes from the lookup; the handler acts
  on the engine and on the protocol object exactly as it does for the name
  \<open>Cool to Warm\<close>, and returns what it returns for \<open>Cool to Warm\<close>, except that the
  success message names the color map the caller gave.
\<close>

theorem unknown_color_map_falls_back:
  assumes "color_map_name \<notin> set (map fst color_map_presets)"
  shows "preset_name color_map_name = ''Cool to Warm''
     \<and> snd (apply_color_map E array_name color_map_name s) =
         snd (apply_color_map E array_name ''Cool to Warm'' s)
     \<and> fst (apply_color_map E array_name color_map_name s) =
         (if fst (apply_color_map E array_name ''Cool to Warm'' s) =
               Inr (status_dict ''success''
                      (''Applied Cool to Warm color map to '' @ array_name))
          then Inr (status_dict ''success''
                      (''Applied '' @ color_map_name @ '' color map to '' @ array_name))
          else fst (apply_color_map E array_name ''Cool to Warm'' s))"
proof -
  have p: "preset_name color_map_name = preset_name ''Cool to Warm''"
    using preset_name_unknown [OF assms] preset_name_default by simp
  from apply_color_map_by_preset [OF p, of E array_name s] preset_name_unknown [OF assms]
  show ?thesis by simp
qed

text \<open>
  The name \<open>Sunset\<close> on the recording engine, after the file was loaded: the engine is
  asked for the preset \<open>Cool to Warm\<close>, and the message says \<open>Sunset\<close>.
\<close>

theorem unknown_color_map_falls_back_witness:
  "''Sunset'' \<notin> set (map fst color_map_presets)
   \<and> apply_color_map recording_engine ''Temperature'' ''Sunset'' (loaded_protocol, []) =
     (Inr (status_dict ''success'' ''Applied Sunset color map to Temperature''),
      loaded_protocol,
      [''ColorBy Temperature'', ''GetColorTransferFunction Temperature'',
       ''ApplyPreset Cool to Warm'', ''GetScalarBar'', ''set Visibility'', ''set Title'',
       ''set ComponentTitle'', ''Render''])"
proof -
  have h: "''Sunset'' \<notin> set (map fst color_map_presets)"
    by (simp add: color_map_presets_def)
  from unknown_color_map_falls_back
         [OF h, of recording_engine "''Temperature''" "(loaded_protocol, [])"]
  have "snd (apply_color_map recording_engine ''Temperature'' ''Sunset'' (loaded_protocol, [])) =
      (loaded_protocol,
      [''ColorBy Temperature'', ''GetColorTransferFunction Temperature'',
       ''ApplyPreset Cool to Warm'', ''GetScalarBar'', ''set Visibility'', ''set Title'',
       ''set ComponentTitle'', ''Render''])"
   and "fst (apply_color_map recording_engine ''Temperature'' ''Sunset'' (loaded_protocol, [])) =
      Inr (status_dict ''success'' ''Applied Sunset color map to Temperature'')"
    by (simp_all add: run_default_color_map)
  with h show ?thesis by (simp add: prod_eq_iff)
qed
























end
